theory Spec2Isabelle
  imports Complex_Main "HOL-Library.Signed_Division"
begin

section \<open>Stage list and stage navigation (AwgSimulator)\<close>

text \<open>
  The stage table \<open>STEPS\<close> of \<open>src/AwgSimulator.jsx\<close>, lines 11-18. Only the
  \<open>key\<close> of each entry is kept; the display titles are rendering-only.
\<close>

definition STEPS :: "string list" where
  "STEPS = [''air'', ''condensation'', ''filtration'', ''uv_tank'', ''dispense'', ''mineral'']"

text \<open>\<open>const clamp01 = (v) => Math.max(0, Math.min(1, v))\<close> (line 20).\<close>

definition clamp01 :: "real \<Rightarrow> real" where
  "clamp01 v = max 0 (min 1 v)"

text \<open>
  The component state \<open>stepIndex\<close> is a JavaScript number; every handler is a state
  updater \<open>i => ...\<close> or a constant. The handlers below are the arguments of
  \<open>setStepIndex\<close> at lines 601 (previous), 604 (next), 607 (reset), 522 (step dot)
  and 551 (the auto-play interval). JavaScript's \<open>%\<close> truncates towards zero, which
  is \<open>smod\<close>.
\<close>

definition prev_onClick :: "int \<Rightarrow> int" where
  "prev_onClick i = max 0 (i - 1)"

definition next_onClick :: "int \<Rightarrow> int" where
  "next_onClick i = min (int (length STEPS) - 1) (i + 1)"

definition reset_onClick :: "int \<Rightarrow> int" where
  "reset_onClick i = 0"

definition dot_onClick :: "int \<Rightarrow> int \<Rightarrow> int" where
  "dot_onClick idx i = idx"

definition autoPlay_interval :: "int \<Rightarrow> int" where
  "autoPlay_interval i = (i + 1) smod int (length STEPS)"

text \<open>
  \<open>StepDots\<close> renders one button per entry of \<open>STEPS\<close> (\<open>STEPS.map((s, idx) => ...)\<close>,
  line 519): these are the only indices a jump is ever requested with.
\<close>

definition StepDots_indices :: "int list" where
  "StepDots_indices = map int [0..<length STEPS]"

text \<open>
  \<open>const step = STEPS[stepIndex].key\<close> (line 541): reading the key of an absent
  array element throws a \<open>TypeError\<close> during rendering.
\<close>

datatype js_error = TypeError

definition current_step :: "int \<Rightarrow> js_error + string" where
  "current_step stepIndex =
     (if 0 \<le> stepIndex \<and> stepIndex < int (length STEPS)
      then Inr (STEPS ! nat stepIndex) else Inl TypeError)"

section \<open>The per-frame update of AwgModel\<close>

text \<open>
  The mutable scene values written by the \<open>useFrame\<close> callback of \<open>AwgModel\<close>
  (lines 275-305), over the reals: the fan's \<open>rotation.z\<close>, the emissive intensity of
  the coil and UV materials, and the \<open>scale.y\<close> of the two water meshes.
\<close>

record model_state =
  fan_rotation_z :: real
  coil_emissiveIntensity :: real
  uv_emissiveIntensity :: real
  dirtyWater_scale_y :: real
  cleanWater_scale_y :: real

text \<open>Which of the refs are attached (\<open>ref.current\<close> is not null).\<close>

record model_refs =
  fanRef :: bool
  coilGlowRef :: bool
  uvRef :: bool
  dirtyWaterRef :: bool
  cleanWaterRef :: bool

text \<open>
  The values the scene is created with: \<open>emissiveIntensity: 0.08\<close> (line 207) and
  \<open>0.15\<close> (line 227), \<open>scale={[1, 0.22, 1]}\<close> (line 392), \<open>scale={[1, 0.25, 1]}\<close>
  (line 400); a new mesh has rotation 0.
\<close>

definition initial_model_state :: model_state where
  "initial_model_state =
     \<lparr>fan_rotation_z = 0, coil_emissiveIntensity = 0.08, uv_emissiveIntensity = 0.15,
      dirtyWater_scale_y = 0.22, cleanWater_scale_y = 0.25\<rparr>"

definition all_refs :: model_refs where
  "all_refs = \<lparr>fanRef = True, coilGlowRef = True, uvRef = True,
               dirtyWaterRef = True, cleanWaterRef = True\<rparr>"

text \<open>Lines 281-282: the fan's base angular rate and its stage multiplier.\<close>

definition fan_base :: "real \<Rightarrow> real" where
  "fan_base flow = 1.2 + flow * 10.0"

definition fan_mult :: "string \<Rightarrow> real" where
  "fan_mult step = (if step = ''air'' then 1.0 else 0.20)"

text \<open>Line 288: the coil glow.\<close>

definition coil_glow :: "string \<Rightarrow> real \<Rightarrow> real" where
  "coil_glow step cond = (if step = ''condensation'' then 0.25 + cond * 0.85 else 0.08)"

text \<open>Line 293: the UV glow.\<close>

definition uv_glow :: "string \<Rightarrow> real \<Rightarrow> real" where
  "uv_glow step flow = (if step = ''uv_tank'' then 0.6 + flow * 0.9 else 0.12)"

text \<open>Lines 298 and 302: the water level targets.\<close>

definition dirty_target :: "string \<Rightarrow> real" where
  "dirty_target step = (if step = ''filtration'' \<or> step = ''condensation'' then 0.15 else 0.22)"

definition clean_target :: "string \<Rightarrow> real" where
  "clean_target step =
     (if step = ''uv_tank'' \<or> step = ''dispense'' \<or> step = ''mineral'' then 0.33 else 0.25)"

text \<open>
  Lines 299 and 303, \<open>y += (target - y) * (1 - Math.pow(rate, delta))\<close>: the exponential
  approach of a level to its target. The source writes the decay base \<open>0.001\<close> in both
  places; it is the parameter \<open>rate\<close> here. \<open>Math.pow\<close> with a positive base is
  \<open>powr\<close>.
\<close>

definition advance :: "real \<Rightarrow> real \<Rightarrow> real \<Rightarrow> real \<Rightarrow> real" where
  "advance rate y target delta = y + (target - y) * (1 - rate powr delta)"

definition level_rate :: real where
  "level_rate = 0.001"

definition useFrame_AwgModel ::
  "model_refs \<Rightarrow> string \<Rightarrow> real \<Rightarrow> real \<Rightarrow> real \<Rightarrow> model_state \<Rightarrow> model_state" where
  "useFrame_AwgModel R step fluidFlow tempCondensation delta s =
     (let flow = clamp01 fluidFlow;
          cond = clamp01 tempCondensation;
          s1 = (if fanRef R
                then s\<lparr>fan_rotation_z := fan_rotation_z s + fan_base flow * fan_mult step * delta\<rparr>
                else s);
          s2 = (if coilGlowRef R
                then s1\<lparr>coil_emissiveIntensity := coil_glow step cond\<rparr>
                else s1);
          s3 = (if uvRef R
                then s2\<lparr>uv_emissiveIntensity := uv_glow step flow\<rparr>
                else s2);
          s4 = (if dirtyWaterRef R
                then s3\<lparr>dirtyWater_scale_y :=
                          advance level_rate (dirtyWater_scale_y s3) (dirty_target step) delta\<rparr>
                else s3)
      in (if cleanWaterRef R
          then s4\<lparr>cleanWater_scale_y :=
                    advance level_rate (cleanWater_scale_y s4) (clean_target step) delta\<rparr>
          else s4))"

section \<open>Single-precision storage\<close>

text \<open>
  The position and phase arrays are \<open>Float32Array\<close>s: a store rounds the number to the
  nearest single-precision value, ties to the even significand, and a read gives that
  value back exactly. \<open>fround\<close> is this rounding (JavaScript's \<open>Math.fround\<close>) on
  the finite range: 24 significant bits, the exponent not below \<open>-126\<close>. Numbers
  beyond the largest single-precision value, which a store turns into an infinity, are
  not covered.
\<close>

definition round_half_even :: "real \<Rightarrow> int" where
  "round_half_even r =
     (let n = \<lfloor>r\<rfloor>
      in if r - of_int n < 1 / 2 then n
         else if r - of_int n > 1 / 2 then n + 1
         else if even n then n else n + 1)"

definition f32_exponent :: "real \<Rightarrow> int" where
  "f32_exponent x = max (- 126) \<lfloor>log 2 \<bar>x\<bar>\<rfloor>"

definition f32_ulp :: "real \<Rightarrow> real" where
  "f32_ulp x = 2 powi (f32_exponent x - 23)"

definition fround :: "real \<Rightarrow> real" where
  "fround x = (if x = 0 then 0 else of_int (round_half_even (x / f32_ulp x)) * f32_ulp x)"

section \<open>The particle field (Particles)\<close>

text \<open>
  The props of \<open>Particles\<close> that the simulation reads (lines 22-31); \<open>color\<close> and
  \<open>size\<close> are rendering-only. \<open>box\<close> and \<open>direction\<close> are three-element arrays
  in the source and triples here.
\<close>

record Particles_props =
  count :: nat
  speed :: real
  active :: bool
  box :: "real \<times> real \<times> real"
  direction :: "real \<times> real \<times> real"
  swirl :: real

text \<open>
  Lines 34-39: the direction as a \<open>THREE.Vector3\<close>, replaced by \<open>(1, 0, 0)\<close> when its
  length is zero, then normalised. \<open>Vector3.normalize\<close> of three.js divides by
  \<open>length() || 1\<close>.
\<close>

definition vec_length :: "real \<times> real \<times> real \<Rightarrow> real" where
  "vec_length d = (case d of (x, y, z) \<Rightarrow> sqrt (x * x + y * y + z * z))"

definition vec_normalize :: "real \<times> real \<times> real \<Rightarrow> real \<times> real \<times> real" where
  "vec_normalize d =
     (let l = (if vec_length d = 0 then 1 else vec_length d)
      in (case d of (x, y, z) \<Rightarrow> (x / l, y / l, z / l)))"

definition dir :: "real \<times> real \<times> real \<Rightarrow> real \<times> real \<times> real" where
  "dir d = vec_normalize (if vec_length d = 0 then (1, 0, 0) else d)"

text \<open>
  Lines 41-55: the initial positions and phases, each stored into a new
  \<open>Float32Array\<close>. \<open>Math.random\<close> is the sequence \<open>rnd\<close> of its successive
  results; positions take three draws per particle.
\<close>

definition positions_init :: "(nat \<Rightarrow> real) \<Rightarrow> nat \<Rightarrow> real \<times> real \<times> real \<Rightarrow> real list" where
  "positions_init rnd n b =
     concat (map (\<lambda>i. [fround ((rnd (i * 3 + 0) - 0.5) * fst b),
                         fround ((rnd (i * 3 + 1) - 0.5) * fst (snd b)),
                         fround ((rnd (i * 3 + 2) - 0.5) * snd (snd b))]) [0..<n])"

definition phases_init :: "(nat \<Rightarrow> real) \<Rightarrow> nat \<Rightarrow> real list" where
  "phases_init rnd n = map (\<lambda>i. fround (rnd i * pi * 2)) [0..<n]"

text \<open>
  Lines 82-87, for one axis: \<open>if (pos[k] > half) pos[k] = -half; if (pos[k] < -half)
  pos[k] = half;\<close> on the position array. \<open>half\<close> is a JavaScript number, the array
  element a single-precision value: the first statement stores \<open>fround (- half)\<close>, and
  the second statement compares that stored value with \<open>- half\<close>.
\<close>

definition wrap_axis :: "real \<Rightarrow> nat \<Rightarrow> real list \<Rightarrow> real list" where
  "wrap_axis half k pos =
     (let pos1 = (if pos ! k > half then pos[k := fround (- half)] else pos)
      in (if pos1 ! k < - half then pos1[k := fround half] else pos1))"

text \<open>
  Lines 68-87: the body of the loop for particle \<open>i\<close>, whose coordinates are at
  \<open>ix = i * 3 + 0\<close>, \<open>iy = i * 3 + 1\<close> and \<open>iz = i * 3 + 2\<close>, in its three parts:
  the advection along \<open>dir\<close> (lines 72-74), the swirl on the second and third
  coordinate (lines 76-80) and the wrap of each coordinate (lines 82-87). The sums of
  the two \<open>+=\<close> parts are kept exact; the rounding of a store is modelled where a
  stored constant is read back and tested, in the wrap.
\<close>

definition advect :: "Particles_props \<Rightarrow> real \<Rightarrow> nat \<Rightarrow> real list \<Rightarrow> real list" where
  "advect P delta i pos =
     (let dx = fst (dir (direction P));
          dy = fst (snd (dir (direction P)));
          dz = snd (snd (dir (direction P)));
          ix = i * 3 + 0;
          iy = i * 3 + 1;
          iz = i * 3 + 2;
          pos1 = pos[ix := pos ! ix + dx * speed P * delta];
          pos2 = pos1[iy := pos1 ! iy + dy * speed P * delta]
      in pos2[iz := pos2 ! iz + dz * speed P * delta])"

definition swirl_step :: "Particles_props \<Rightarrow> real list \<Rightarrow> real \<Rightarrow> nat \<Rightarrow> real list \<Rightarrow> real list" where
  "swirl_step P phases t i pos =
     (let iy = i * 3 + 1;
          iz = i * 3 + 2
      in (if swirl P > 0
          then (let p = phases ! i + t * (0.8 + swirl P * 1.2);
                    pos1 = pos[iy := pos ! iy + sin p * swirl P * 0.02]
                in pos1[iz := pos1 ! iz + cos p * swirl P * 0.02])
          else pos))"

definition wrap_particle :: "Particles_props \<Rightarrow> nat \<Rightarrow> real list \<Rightarrow> real list" where
  "wrap_particle P i pos =
     (let halfX = fst (box P) / 2;
          halfY = fst (snd (box P)) / 2;
          halfZ = snd (snd (box P)) / 2;
          ix = i * 3 + 0;
          iy = i * 3 + 1;
          iz = i * 3 + 2
      in wrap_axis halfZ iz (wrap_axis halfY iy (wrap_axis halfX ix pos)))"

definition particle_loop_body ::
  "Particles_props \<Rightarrow> real list \<Rightarrow> real \<Rightarrow> real \<Rightarrow> nat \<Rightarrow> real list \<Rightarrow> real list" where
  "particle_loop_body P phases t delta i pos =
     wrap_particle P i (swirl_step P phases t i (advect P delta i pos))"

text \<open>
  Lines 57-91: the \<open>useFrame\<close> callback. \<open>points_current\<close> says whether the ref
  \<open>points.current\<close> is attached, \<open>t\<close> is \<open>state.clock.getElapsedTime()\<close>, \<open>pos\<close> the
  position array of the geometry.
\<close>

definition useFrame_Particles ::
  "Particles_props \<Rightarrow> bool \<Rightarrow> real list \<Rightarrow> real \<Rightarrow> real \<Rightarrow> real list \<Rightarrow> real list" where
  "useFrame_Particles P points_current phases t delta pos =
     (if \<not> active P \<or> \<not> points_current then pos
      else fold (particle_loop_body P phases t delta) [0..<count P] pos)"



text \<open>
  The largest magnitude the wrap of an axis with the half extent \<open>half\<close> leaves in the
  array: \<open>half\<close> itself or, when it is larger, the stored constant \<open>fround half\<close>.
\<close>

definition wrap_bound :: "real \<Rightarrow> real" where
  "wrap_bound half = max half (fround half)"

section \<open>Rendering of Particles\<close>

text \<open>
  Lines 41-49 and 96. \<open>positions\<close> is the value of a \<open>useMemo\<close> with the
  dependencies \<open>[count, box]\<close>: React keeps the value of the previous render while
  every dependency is the same as then (\<open>Object.is\<close>: a number by its value, an array
  by its identity) and calls the function again otherwise. The geometry attribute is
  made from it (\<open>args={[positions, 3]}\<close>), so the array that the frame callback moves
  is the current value of the memo. The identity of the \<open>box\<close> array is a number here.
\<close>

record Particles_instance =
  memo_count :: nat
  memo_box :: nat
  positions :: "real list"

definition Particles_mount ::
  "(nat \<Rightarrow> real) \<Rightarrow> Particles_props \<Rightarrow> nat \<Rightarrow> Particles_instance" where
  "Particles_mount rnd P box_id =
     \<lparr>memo_count = count P, memo_box = box_id,
      positions = positions_init rnd (count P) (box P)\<rparr>"

definition Particles_render ::
  "(nat \<Rightarrow> real) \<Rightarrow> Particles_props \<Rightarrow> nat \<Rightarrow> Particles_instance \<Rightarrow> Particles_instance" where
  "Particles_render rnd P box_id inst =
     (if memo_count inst = count P \<and> memo_box inst = box_id then inst
      else Particles_mount rnd P box_id)"





text \<open>
  A field of one particle with the default \<open>speed\<close>, \<open>box\<close> and \<open>direction\<close> of the
  props and the swirl of the mineralisation field, for concrete runs.
\<close>

definition example_field :: Particles_props where
  "example_field = \<lparr>count = 1, speed = 0.35, active = True, box = (1.2, 0.6, 0.6),
                     direction = (1, 0, 0), swirl = 0.2\<rparr>"

section \<open>Stage navigation\<close>

text \<open>The stage list has six entries.\<close>

lemma length_STEPS: "length STEPS = 6"
  by (simp add: STEPS_def)

text \<open>
  C6. Manual navigation clamps at the boundaries and never wraps: "previous" at index 0
  leaves the index at 0 and "next" at the last index leaves it at the last index, while
  the auto-play interval firing at the last index wraps to 0. Away from its boundary
  "previous" goes one index down and "next" one index up, and the auto-play interval
  always gives the increment modulo \<open>stageCount\<close>. From any index in
  \<open>[0, stageCount)\<close> each of the three, and the reset button, lands in
  \<open>[0, stageCount)\<close> again.
\<close>

theorem stage_navigation_clamps_auto_wraps:
  assumes "0 \<le> i" and "i < int (length STEPS)"
  shows "prev_onClick 0 = 0
    \<and> next_onClick (int (length STEPS) - 1) = int (length STEPS) - 1
    \<and> autoPlay_interval (int (length STEPS) - 1) = 0
    \<and> 0 \<le> prev_onClick i \<and> prev_onClick i < int (length STEPS)
    \<and> 0 \<le> next_onClick i \<and> next_onClick i < int (length STEPS)
    \<and> 0 \<le> autoPlay_interval i \<and> autoPlay_interval i < int (length STEPS)
    \<and> 0 \<le> reset_onClick i \<and> reset_onClick i < int (length STEPS)
    \<and> prev_onClick i = (if i = 0 then 0 else i - 1)
    \<and> next_onClick i = (if i = int (length STEPS) - 1 then int (length STEPS) - 1 else i + 1)
    \<and> autoPlay_interval i = (i + 1) mod int (length STEPS)
    \<and> autoPlay_interval i = (if i = int (length STEPS) - 1 then 0 else i + 1)
    \<and> reset_onClick i = 0"
  using assms
  by (auto simp: prev_onClick_def next_onClick_def autoPlay_interval_def reset_onClick_def
      length_STEPS signed_modulo_int_def sgn_if)

theorem stage_navigation_clamps_auto_wraps_witness:
  "(0::int) \<le> 5 \<and> 5 < int (length STEPS) \<and> (0::int) \<le> 2 \<and> 2 < int (length STEPS)
    \<and> prev_onClick 0 = 0 \<and> next_onClick 5 = 5 \<and> autoPlay_interval 5 = 0
    \<and> prev_onClick 5 = 4
    \<and> prev_onClick 2 = 1 \<and> next_onClick 2 = 3 \<and> autoPlay_interval 2 = 3"
proof -
  have h1: "(0::int) \<le> 5" and h3: "(0::int) \<le> 2" by simp_all
  have h2: "(5::int) < int (length STEPS)" and h4: "(2::int) < int (length STEPS)"
    by (simp_all add: length_STEPS)
  show ?thesis
    using h2 h4 stage_navigation_clamps_auto_wraps [OF h1 h2]
      stage_navigation_clamps_auto_wraps [OF h3 h4]
    by (simp add: length_STEPS)
qed

text \<open>
  C7, as stated, fails: the step-dot handler \<open>setStepIndex(idx)\<close> has no range check and
  no error. With the index 7, outside \<open>[0, 6)\<close>, and the current index 2 the new index
  is 7, not 2; the next render then fails reading \<open>STEPS[7].key\<close>.
\<close>

theorem jump_out_of_range_counterexample:
  "\<not> (0 \<le> (7::int) \<and> (7::int) < int (length STEPS))
    \<and> dot_onClick 7 2 \<noteq> 2
    \<and> current_step (dot_onClick 7 2) = Inl TypeError"
  by (simp add: dot_onClick_def current_step_def length_STEPS)

text \<open>
  C7, amended. The jump requests the interface can issue are the step dots, one per
  entry of the stage list: the index of each is in \<open>[0, stageCount)\<close>, the click sets the
  current stage index to it whatever the index was, and the stage key is then defined.
\<close>

theorem jump_sets_index_of_rendered_dot:
  assumes "idx \<in> set StepDots_indices"
  shows "0 \<le> idx \<and> idx < int (length STEPS)
    \<and> dot_onClick idx i = idx
    \<and> current_step (dot_onClick idx i) = Inr (STEPS ! nat idx)"
  using assms by (auto simp: StepDots_indices_def dot_onClick_def current_step_def)

theorem jump_sets_index_of_rendered_dot_witness:
  "(3::int) \<in> set StepDots_indices \<and> dot_onClick 3 0 = 3
    \<and> current_step (dot_onClick 3 0) = Inr ''uv_tank''"
proof -
  have h: "(3::int) \<in> set StepDots_indices"
    by (simp add: StepDots_indices_def length_STEPS image_iff)
  show ?thesis
    using h jump_sets_index_of_rendered_dot [OF h, of 0]
    by (simp add: STEPS_def dot_onClick_def)
qed

section \<open>Instantaneous targets: coil glow and fan rotation\<close>

lemma clamp01_id: "0 \<le> v \<Longrightarrow> v \<le> 1 \<Longrightarrow> clamp01 v = v"
  by (simp add: clamp01_def)

text \<open>
  C2, as stated, fails: on stage "condensation" with the condensation input 0.58 the
  coil glow after one frame is \<open>0.25 + 0.58 * 0.85 = 0.743\<close>, not
  \<open>0.25 + 0.58 * 0.9 = 0.772\<close>.
\<close>

theorem coil_glow_counterexample:
  "coil_emissiveIntensity
     (useFrame_AwgModel all_refs ''condensation'' 0.62 0.58 0.016 initial_model_state)
   \<noteq> 0.25 + 0.58 * 0.9"
  by (simp add: useFrame_AwgModel_def all_refs_def initial_model_state_def coil_glow_def
      clamp01_def Let_def)

text \<open>
  C2, amended. With the coil attached, the coil glow after a frame is, whatever it was
  before the frame, \<open>0.25 + c * 0.85\<close> on stage "condensation", where \<open>c\<close> is the
  condensation input clamped to \<open>[0, 1]\<close>; on every other stage it is the idle value
  0.08, which lies in \<open>[0.05, 0.12]\<close>.
\<close>

theorem coil_glow_instantaneous:
  assumes "coilGlowRef R"
  shows "(step = ''condensation'' \<longrightarrow>
            coil_emissiveIntensity (useFrame_AwgModel R step fluidFlow tempCondensation delta s)
              = 0.25 + clamp01 tempCondensation * 0.85)
    \<and> (step \<noteq> ''condensation'' \<longrightarrow>
            coil_emissiveIntensity (useFrame_AwgModel R step fluidFlow tempCondensation delta s)
              = 0.08
          \<and> 0.05 \<le> coil_emissiveIntensity
                      (useFrame_AwgModel R step fluidFlow tempCondensation delta s)
          \<and> coil_emissiveIntensity
                (useFrame_AwgModel R step fluidFlow tempCondensation delta s) \<le> 0.12)"
  using assms by (simp add: useFrame_AwgModel_def coil_glow_def Let_def)

theorem coil_glow_instantaneous_witness:
  "coilGlowRef all_refs
    \<and> coil_emissiveIntensity
        (useFrame_AwgModel all_refs ''condensation'' 0.62 0.58 0.016 initial_model_state)
      = 0.743
    \<and> coil_emissiveIntensity
        (useFrame_AwgModel all_refs ''air'' 0.62 0.58 0.016 initial_model_state) = 0.08"
proof -
  have h: "coilGlowRef all_refs" by (simp add: all_refs_def)
  show ?thesis
    using h
      coil_glow_instantaneous [OF h, of "''condensation''" "0.62" "0.58" "0.016" initial_model_state]
      coil_glow_instantaneous [OF h, of "''air''" "0.62" "0.58" "0.016" initial_model_state]
    by (simp add: clamp01_def)
qed

text \<open>
  C8. With the fan attached and the flow input in \<open>[0, 1]\<close>, a frame turns the fan by
  \<open>(1.2 + flow * 10) * mult * delta\<close>, where \<open>mult\<close> is 1 on stage "air" and an idle
  fraction in \<open>[0.15, 0.25]\<close> on every other stage, never zero; for the flow 0.62 on
  stage "air" the rate is 7.4.
\<close>

theorem fan_rotation_rate:
  assumes "0 \<le> flow" and "flow \<le> 1" and "fanRef R"
  shows "fan_rotation_z (useFrame_AwgModel R step flow tempCondensation delta s)
           = fan_rotation_z s + (1.2 + flow * 10) * fan_mult step * delta
    \<and> (step = ''air'' \<longrightarrow> fan_mult step = 1.0)
    \<and> (step \<noteq> ''air'' \<longrightarrow> 0.15 \<le> fan_mult step \<and> fan_mult step \<le> 0.25)
    \<and> fan_mult step \<noteq> 0
    \<and> fan_base (clamp01 0.62) * fan_mult ''air'' = 7.4"
  using assms
  by (simp add: useFrame_AwgModel_def Let_def fan_base_def fan_mult_def clamp01_def)

theorem fan_rotation_rate_witness:
  "(0::real) \<le> 0.62 \<and> (0.62::real) \<le> 1 \<and> fanRef all_refs
    \<and> fan_rotation_z (useFrame_AwgModel all_refs ''air'' 0.62 0.58 1 initial_model_state)
        = 7.4"
proof -
  have h1: "(0::real) \<le> 0.62" by simp
  have h2: "(0.62::real) \<le> 1" by simp
  have h3: "fanRef all_refs" by (simp add: all_refs_def)
  show ?thesis
    using h3 fan_rotation_rate [OF h1 h2 h3, of "''air''" "0.58" 1 initial_model_state]
    by (simp add: initial_model_state_def)
qed

section \<open>Smoothed water levels\<close>

text \<open>The frame moves each attached water level by one \<open>advance\<close> step at the rate 0.001.\<close>

lemma useFrame_dirtyWater:
  "dirtyWaterRef R \<Longrightarrow>
   dirtyWater_scale_y (useFrame_AwgModel R step fluidFlow tempCondensation delta s)
     = advance level_rate (dirtyWater_scale_y s) (dirty_target step) delta"
  by (simp add: useFrame_AwgModel_def Let_def)

lemma useFrame_cleanWater:
  "cleanWaterRef R \<Longrightarrow>
   cleanWater_scale_y (useFrame_AwgModel R step fluidFlow tempCondensation delta s)
     = advance level_rate (cleanWater_scale_y s) (clean_target step) delta"
  by (simp add: useFrame_AwgModel_def Let_def)

lemma level_rate_bounds: "0 < level_rate \<and> level_rate < 1"
  by (simp add: level_rate_def)

lemma powr_between:
  fixes rate :: real
  assumes "0 < rate" and "rate < 1" and "0 < delta"
  shows "0 < rate powr delta \<and> rate powr delta < 1"
  using assms powr_less_mono2 [of delta rate 1] by simp

lemma advance_convex:
  "advance rate y target delta = rate powr delta * y + (1 - rate powr delta) * target"
  by (simp add: advance_def algebra_simps)

text \<open>
  C3. For a decay base in \<open>(0, 1)\<close> and a frame delta above 0, one step lands between
  the current value and the target: it never overshoots.
\<close>

theorem advance_no_overshoot:
  assumes "0 < rate" and "rate < 1" and "0 < delta"
  shows "min y target \<le> advance rate y target delta
    \<and> advance rate y target delta \<le> max y target"
proof -
  define k where "k = rate powr delta"
  have k: "0 < k" "k < 1"
    using powr_between [OF assms] by (simp_all add: k_def)
  have e: "advance rate y target delta = k * y + (1 - k) * target"
    by (simp add: advance_convex k_def)
  show ?thesis
  proof (cases "y \<le> target")
    case True
    have "k * y \<le> k * target"
      using True k by simp
    moreover have "(1 - k) * y \<le> (1 - k) * target"
      using True k by (simp add: mult_left_mono)
    ultimately show ?thesis
      using True unfolding e by (simp add: algebra_simps)
  next
    case False
    have "k * target \<le> k * y"
      using False k by simp
    moreover have "(1 - k) * target \<le> (1 - k) * y"
      using False k by (simp add: mult_left_mono)
    ultimately show ?thesis
      using False unfolding e by (simp add: algebra_simps)
  qed
qed

theorem advance_no_overshoot_witness:
  "0 < level_rate \<and> level_rate < 1 \<and> (0::real) < 1
    \<and> min 0.22 0.15 \<le> advance level_rate 0.22 0.15 1
    \<and> advance level_rate 0.22 0.15 1 \<le> max 0.22 0.15"
proof -
  have h1: "0 < level_rate" and h2: "level_rate < 1"
    using level_rate_bounds by simp_all
  have h3: "(0::real) < 1" by simp
  show ?thesis
    using h1 h2 advance_no_overshoot [OF h1 h2 h3, of "0.22" "0.15"] by simp
qed

text \<open>
  C4. Over the reals, one step of size \<open>dt\<close> gives exactly the value of two successive
  steps of size \<open>dt / 2\<close> towards the same target.
\<close>

theorem advance_two_half_steps:
  assumes "0 < dt"
  shows "advance rate (advance rate y target (dt / 2)) target (dt / 2)
           = advance rate y target dt"
proof -
  have "rate powr dt = rate powr (dt / 2) * rate powr (dt / 2)"
    by (simp flip: powr_add)
  then show ?thesis
    by (simp add: advance_def algebra_simps)
qed

theorem advance_two_half_steps_witness:
  "(0::real) < 2
    \<and> advance level_rate (advance level_rate 0.22 0.15 (2 / 2)) 0.15 (2 / 2)
        = advance level_rate 0.22 0.15 2"
proof -
  have h: "(0::real) < 2" by simp
  show ?thesis
    using advance_two_half_steps [OF h, of level_rate "0.22" "0.15"] by simp
qed

text \<open>
  C9, as stated, fails for a negative frame delta: nothing guards the update, and with
  the current value 0, the target 1 and the delta \<open>-1\<close> the step gives \<open>-999\<close>, not 0.
\<close>

theorem advance_negative_delta_counterexample:
  "advance level_rate 0 1 (- 1) = - 999 \<and> advance level_rate 0 1 (- 1) \<noteq> 0"
  by (simp add: advance_def level_rate_def powr_minus)

text \<open>
  C9, amended. For the frame delta 0 a step leaves the current value unchanged, for any
  positive decay base; the frame then leaves both water levels as they were. The update
  is plain arithmetic and raises no error.
\<close>

theorem advance_zero_delta_noop:
  "(0 < rate \<longrightarrow> advance rate y target 0 = y)
    \<and> dirtyWater_scale_y (useFrame_AwgModel R step fluidFlow tempCondensation 0 s)
        = dirtyWater_scale_y s
    \<and> cleanWater_scale_y (useFrame_AwgModel R step fluidFlow tempCondensation 0 s)
        = cleanWater_scale_y s"
  by (simp add: useFrame_AwgModel_def Let_def advance_def level_rate_def)

theorem advance_zero_delta_noop_witness:
  "0 < level_rate \<and> advance level_rate 0.22 0.15 0 = 0.22"
  using advance_zero_delta_noop [of level_rate "0.22" "0.15"] level_rate_bounds by simp

section \<open>Single-precision rounding\<close>














lemma wrap_bound_nonneg: "0 \<le> half \<Longrightarrow> 0 \<le> wrap_bound half"
  by (simp add: wrap_bound_def max_def)


section \<open>The particle field\<close>

text \<open>The position array is created with three entries per particle.\<close>

lemma positions_init_length: "length (positions_init rnd n b) = n * 3"
  by (induction n) (simp_all add: positions_init_def)

subsection \<open>Each part of the loop body keeps the length and touches only its particle\<close>

lemma wrap_axis_length [simp]: "length (wrap_axis half k pos) = length pos"
  by (simp add: wrap_axis_def Let_def)

lemma wrap_axis_other: "j \<noteq> k \<Longrightarrow> wrap_axis half k pos ! j = pos ! j"
  by (simp add: wrap_axis_def Let_def)



lemma wrap_axis_id:
  assumes "\<bar>pos ! k\<bar> \<le> half"
  shows "wrap_axis half k pos = pos"
  using assms by (auto simp: wrap_axis_def Let_def)

lemma advect_length [simp]: "length (advect P delta i pos) = length pos"
  by (simp add: advect_def Let_def)

lemma swirl_step_length [simp]: "length (swirl_step P phases t i pos) = length pos"
  by (simp add: swirl_step_def Let_def)

lemma wrap_particle_length [simp]: "length (wrap_particle P i pos) = length pos"
  by (simp add: wrap_particle_def Let_def)

lemma body_length [simp]: "length (particle_loop_body P phases t delta i pos) = length pos"
  by (simp add: particle_loop_body_def)

lemma advect_other:
  assumes "j \<noteq> i * 3 + 0" "j \<noteq> i * 3 + 1" "j \<noteq> i * 3 + 2"
  shows "advect P delta i pos ! j = pos ! j"
  using assms by (simp add: advect_def Let_def)

lemma swirl_step_other:
  assumes "j \<noteq> i * 3 + 1" "j \<noteq> i * 3 + 2"
  shows "swirl_step P phases t i pos ! j = pos ! j"
  using assms by (simp add: swirl_step_def Let_def)

lemma wrap_particle_other:
  assumes "j \<noteq> i * 3 + 0" "j \<noteq> i * 3 + 1" "j \<noteq> i * 3 + 2"
  shows "wrap_particle P i pos ! j = pos ! j"
  using assms by (simp add: wrap_particle_def Let_def wrap_axis_other)

lemma body_other:
  assumes "j \<noteq> i * 3 + 0" "j \<noteq> i * 3 + 1" "j \<noteq> i * 3 + 2"
  shows "particle_loop_body P phases t delta i pos ! j = pos ! j"
  using assms by (simp add: particle_loop_body_def wrap_particle_other swirl_step_other advect_other)



lemma fold_body_length [simp]:
  "length (fold (particle_loop_body P phases t delta) [0..<n] pos) = length pos"
  by (induction n) simp_all



lemma fold_body_other:
  assumes "n * 3 \<le> j"
  shows "fold (particle_loop_body P phases t delta) [0..<n] pos ! j = pos ! j"
  using assms
proof (induction n)
  case 0
  show ?case by simp
next
  case (Suc n)
  have "particle_loop_body P phases t delta n
          (fold (particle_loop_body P phases t delta) [0..<n] pos) ! j
        = fold (particle_loop_body P phases t delta) [0..<n] pos ! j"
    using Suc.prems by (intro body_other) simp_all
  then show ?case using Suc by simp
qed

lemma advect_local:
  assumes "length q = length pos" and "i * 3 + 2 < length pos"
    and "q ! (i * 3 + 0) = pos ! (i * 3 + 0)"
    and "q ! (i * 3 + 1) = pos ! (i * 3 + 1)"
    and "q ! (i * 3 + 2) = pos ! (i * 3 + 2)"
  shows "advect P delta i q ! (i * 3 + 0) = advect P delta i pos ! (i * 3 + 0)
       \<and> advect P delta i q ! (i * 3 + 1) = advect P delta i pos ! (i * 3 + 1)
       \<and> advect P delta i q ! (i * 3 + 2) = advect P delta i pos ! (i * 3 + 2)"
  using assms by (simp add: advect_def Let_def)

lemma swirl_step_local:
  assumes "length q = length pos" and "i * 3 + 2 < length pos"
    and "q ! (i * 3 + 0) = pos ! (i * 3 + 0)"
    and "q ! (i * 3 + 1) = pos ! (i * 3 + 1)"
    and "q ! (i * 3 + 2) = pos ! (i * 3 + 2)"
  shows "swirl_step P phases t i q ! (i * 3 + 0) = swirl_step P phases t i pos ! (i * 3 + 0)
       \<and> swirl_step P phases t i q ! (i * 3 + 1) = swirl_step P phases t i pos ! (i * 3 + 1)
       \<and> swirl_step P phases t i q ! (i * 3 + 2) = swirl_step P phases t i pos ! (i * 3 + 2)"
  using assms by (simp add: swirl_step_def Let_def)

lemma wrap_axis_local:
  assumes "length q = length pos" and "k < length pos" and "q ! k = pos ! k"
  shows "wrap_axis half k q ! k = wrap_axis half k pos ! k"
  using assms by (simp add: wrap_axis_def Let_def)

lemma wrap_particle_local:
  assumes "length q = length pos" and "i * 3 + 2 < length pos"
    and "q ! (i * 3 + 0) = pos ! (i * 3 + 0)"
    and "q ! (i * 3 + 1) = pos ! (i * 3 + 1)"
    and "q ! (i * 3 + 2) = pos ! (i * 3 + 2)"
  shows "wrap_particle P i q ! (i * 3 + 0) = wrap_particle P i pos ! (i * 3 + 0)
       \<and> wrap_particle P i q ! (i * 3 + 1) = wrap_particle P i pos ! (i * 3 + 1)
       \<and> wrap_particle P i q ! (i * 3 + 2) = wrap_particle P i pos ! (i * 3 + 2)"
proof -
  have x: "wrap_particle P i r ! (i * 3 + 0) = wrap_axis (fst (box P) / 2) (i * 3 + 0) r ! (i * 3 + 0)" for r
    by (simp add: wrap_particle_def Let_def wrap_axis_other)
  have y: "wrap_particle P i r ! (i * 3 + 1)
             = wrap_axis (fst (snd (box P)) / 2) (i * 3 + 1) r ! (i * 3 + 1)"
    if "i * 3 + 2 < length r" for r
  proof -
    have "wrap_particle P i r ! (i * 3 + 1)
            = wrap_axis (fst (snd (box P)) / 2) (i * 3 + 1)
                (wrap_axis (fst (box P) / 2) (i * 3 + 0) r) ! (i * 3 + 1)"
      by (simp add: wrap_particle_def Let_def wrap_axis_other)
    also have "\<dots> = wrap_axis (fst (snd (box P)) / 2) (i * 3 + 1) r ! (i * 3 + 1)"
      using that by (intro wrap_axis_local) (simp_all add: wrap_axis_other)
    finally show ?thesis .
  qed
  have z: "wrap_particle P i r ! (i * 3 + 2)
             = wrap_axis (snd (snd (box P)) / 2) (i * 3 + 2) r ! (i * 3 + 2)"
    if "i * 3 + 2 < length r" for r
  proof -
    have "wrap_particle P i r ! (i * 3 + 2)
            = wrap_axis (snd (snd (box P)) / 2) (i * 3 + 2)
                (wrap_axis (fst (snd (box P)) / 2) (i * 3 + 1)
                   (wrap_axis (fst (box P) / 2) (i * 3 + 0) r)) ! (i * 3 + 2)"
      by (simp add: wrap_particle_def Let_def)
    also have "\<dots> = wrap_axis (snd (snd (box P)) / 2) (i * 3 + 2) r ! (i * 3 + 2)"
      using that by (intro wrap_axis_local) (simp_all add: wrap_axis_other)
    finally show ?thesis .
  qed
  have lq: "i * 3 + 2 < length q" using assms(1,2) by simp
  show ?thesis
    unfolding x y [OF lq] y [OF assms(2)] z [OF lq] z [OF assms(2)]
    using assms by (intro conjI wrap_axis_local) simp_all
qed

lemma body_local:
  assumes "length q = length pos" and "i * 3 + 2 < length pos"
    and "q ! (i * 3 + 0) = pos ! (i * 3 + 0)"
    and "q ! (i * 3 + 1) = pos ! (i * 3 + 1)"
    and "q ! (i * 3 + 2) = pos ! (i * 3 + 2)"
    and "k < 3"
  shows "particle_loop_body P phases t delta i q ! (i * 3 + k)
       = particle_loop_body P phases t delta i pos ! (i * 3 + k)"
proof -
  have a: "advect P delta i q ! (i * 3 + 0) = advect P delta i pos ! (i * 3 + 0)
       \<and> advect P delta i q ! (i * 3 + 1) = advect P delta i pos ! (i * 3 + 1)
       \<and> advect P delta i q ! (i * 3 + 2) = advect P delta i pos ! (i * 3 + 2)"
    by (rule advect_local [OF assms(1-5)])
  have la: "length (advect P delta i q) = length (advect P delta i pos)"
    and la2: "i * 3 + 2 < length (advect P delta i pos)"
    using assms(1,2) by simp_all
  have s: "swirl_step P phases t i (advect P delta i q) ! (i * 3 + 0)
             = swirl_step P phases t i (advect P delta i pos) ! (i * 3 + 0)
       \<and> swirl_step P phases t i (advect P delta i q) ! (i * 3 + 1)
             = swirl_step P phases t i (advect P delta i pos) ! (i * 3 + 1)
       \<and> swirl_step P phases t i (advect P delta i q) ! (i * 3 + 2)
             = swirl_step P phases t i (advect P delta i pos) ! (i * 3 + 2)"
    using a by (intro swirl_step_local [OF la la2]) simp_all
  have ls: "length (swirl_step P phases t i (advect P delta i q))
              = length (swirl_step P phases t i (advect P delta i pos))"
    and ls2: "i * 3 + 2 < length (swirl_step P phases t i (advect P delta i pos))"
    using assms(1,2) by simp_all
  have w: "particle_loop_body P phases t delta i q ! (i * 3 + 0)
             = particle_loop_body P phases t delta i pos ! (i * 3 + 0)
       \<and> particle_loop_body P phases t delta i q ! (i * 3 + 1)
             = particle_loop_body P phases t delta i pos ! (i * 3 + 1)
       \<and> particle_loop_body P phases t delta i q ! (i * 3 + 2)
             = particle_loop_body P phases t delta i pos ! (i * 3 + 2)"
    unfolding particle_loop_body_def
    using s by (intro wrap_particle_local [OF ls ls2]) simp_all
  have k: "k = 0 \<or> k = 1 \<or> k = 2" using assms(6) by presburger
  then show ?thesis using w by blast
qed

lemma fold_body_nth:
  assumes "i < n" and "n * 3 \<le> length pos" and "k < 3"
  shows "fold (particle_loop_body P phases t delta) [0..<n] pos ! (i * 3 + k)
       = particle_loop_body P phases t delta i pos ! (i * 3 + k)"
  using assms(1,2)
proof (induction n)
  case 0
  then show ?case by simp
next
  case (Suc n)
  let ?q = "fold (particle_loop_body P phases t delta) [0..<n] pos"
  have r: "fold (particle_loop_body P phases t delta) [0..<Suc n] pos
             = particle_loop_body P phases t delta n ?q"
    by simp
  show ?case
  proof (cases "i < n")
    case True
    have "particle_loop_body P phases t delta n ?q ! (i * 3 + k) = ?q ! (i * 3 + k)"
      using True assms(3) by (intro body_other) presburger+
    then show ?thesis
      using Suc True unfolding r by simp
  next
    case False
    then have i: "i = n" using Suc.prems by simp
    have "particle_loop_body P phases t delta n ?q ! (n * 3 + k)
            = particle_loop_body P phases t delta n pos ! (n * 3 + k)"
      using Suc.prems assms(3)
      by (intro body_local) (simp_all add: fold_body_other)
    then show ?thesis unfolding r i .
  qed
qed

subsection \<open>Concrete runs of the one-particle field\<close>

lemma dir_example: "dir (1, 0, 0) = (1, 0, 0)"
  by (simp add: dir_def vec_normalize_def vec_length_def)

lemma example_frame_zero:
  "useFrame_Particles example_field True [0] 0 0 [0.5, 0, 0] = [0.5, 0, 0.004]"
  by (simp add: useFrame_Particles_def example_field_def particle_loop_body_def advect_def
      swirl_step_def wrap_particle_def wrap_axis_def dir_example Let_def)


subsection \<open>The wrap invariant\<close>




subsection \<open>Inactive fields\<close>


text \<open>A render with a new \<open>box\<close> array draws every position again.\<close>

lemma Particles_render_new_box:
  "memo_box inst \<noteq> box_id \<Longrightarrow>
   positions (Particles_render rnd P box_id inst) = positions_init rnd (count P) (box P)"
  by (simp add: Particles_render_def Particles_mount_def)






subsection \<open>The swirl does not scale with the frame delta\<close>

lemma advect_zero: "advect P 0 i pos = pos"
  by (simp add: advect_def Let_def)

lemma wrap_particle_id:
  assumes "\<bar>pos ! (i * 3 + 0)\<bar> \<le> fst (box P) / 2"
    and "\<bar>pos ! (i * 3 + 1)\<bar> \<le> fst (snd (box P)) / 2"
    and "\<bar>pos ! (i * 3 + 2)\<bar> \<le> snd (snd (box P)) / 2"
  shows "wrap_particle P i pos = pos"
  using assms by (simp add: wrap_particle_def Let_def wrap_axis_id)

lemma swirl_step_nth:
  assumes "0 < swirl P" and "i * 3 + 2 < length pos"
  shows "swirl_step P phases t i pos ! (i * 3 + 0) = pos ! (i * 3 + 0)
    \<and> swirl_step P phases t i pos ! (i * 3 + 1)
        = pos ! (i * 3 + 1) + sin (phases ! i + t * (0.8 + swirl P * 1.2)) * swirl P * 0.02
    \<and> swirl_step P phases t i pos ! (i * 3 + 2)
        = pos ! (i * 3 + 2) + cos (phases ! i + t * (0.8 + swirl P * 1.2)) * swirl P * 0.02"
  using assms by (simp add: swirl_step_def Let_def)

text \<open>
  C10. In an active field with a positive swirl, a frame with frame delta 0 moves a
  particle by the swirl displacement alone, \<open>sin p * swirl * 0.02\<close> on the second and
  \<open>cos p * swirl * 0.02\<close> on the third coordinate with
  \<open>p = phase + t * (0.8 + swirl * 1.2)\<close>, whenever the displaced point stays in
  the box: the positions change although no time has passed, while the advection with
  frame delta 0 changes nothing.
\<close>

theorem swirl_not_scaled_by_delta:
  assumes "active P" and "points_current" and "0 < swirl P"
    and "length pos = count P * 3" and "i < count P"
    and "\<bar>pos ! (i * 3 + 0)\<bar> \<le> fst (box P) / 2"
    and "\<bar>pos ! (i * 3 + 1) + sin (phases ! i + t * (0.8 + swirl P * 1.2)) * swirl P * 0.02\<bar>
           \<le> fst (snd (box P)) / 2"
    and "\<bar>pos ! (i * 3 + 2) + cos (phases ! i + t * (0.8 + swirl P * 1.2)) * swirl P * 0.02\<bar>
           \<le> snd (snd (box P)) / 2"
  shows "useFrame_Particles P points_current phases t 0 pos ! (i * 3 + 0) = pos ! (i * 3 + 0)
    \<and> useFrame_Particles P points_current phases t 0 pos ! (i * 3 + 1)
        = pos ! (i * 3 + 1) + sin (phases ! i + t * (0.8 + swirl P * 1.2)) * swirl P * 0.02
    \<and> useFrame_Particles P points_current phases t 0 pos ! (i * 3 + 2)
        = pos ! (i * 3 + 2) + cos (phases ! i + t * (0.8 + swirl P * 1.2)) * swirl P * 0.02
    \<and> useFrame_Particles P points_current phases t 0 pos \<noteq> pos
    \<and> advect P 0 i pos = pos"
proof -
  let ?p = "phases ! i + t * (0.8 + swirl P * 1.2)"
  let ?F = "useFrame_Particles P points_current phases t 0 pos"
  let ?s = "swirl_step P phases t i pos"
  have len: "i * 3 + 2 < length pos"
    using assms(4,5) by simp
  have F: "?F ! (i * 3 + k) = particle_loop_body P phases t 0 i pos ! (i * 3 + k)" if "k < 3" for k
    using assms(1,2,4,5) that by (simp add: useFrame_Particles_def fold_body_nth)
  have s: "?s ! (i * 3 + 0) = pos ! (i * 3 + 0)
    \<and> ?s ! (i * 3 + 1) = pos ! (i * 3 + 1) + sin ?p * swirl P * 0.02
    \<and> ?s ! (i * 3 + 2) = pos ! (i * 3 + 2) + cos ?p * swirl P * 0.02"
    by (rule swirl_step_nth [OF assms(3) len])
  have "wrap_particle P i ?s = ?s"
    using s assms(6-8) by (intro wrap_particle_id) simp_all
  then have b: "particle_loop_body P phases t 0 i pos = ?s"
    by (simp add: particle_loop_body_def advect_zero)
  have x: "?F ! (i * 3 + 0) = pos ! (i * 3 + 0)"
    and y: "?F ! (i * 3 + 1) = pos ! (i * 3 + 1) + sin ?p * swirl P * 0.02"
    and z: "?F ! (i * 3 + 2) = pos ! (i * 3 + 2) + cos ?p * swirl P * 0.02"
    using F [of 0] F [of 1] F [of 2] s unfolding b by simp_all
  have "sin ?p \<noteq> 0 \<or> cos ?p \<noteq> 0"
    using sin_zero_abs_cos_one [of ?p] by auto
  then have "?F ! (i * 3 + 1) \<noteq> pos ! (i * 3 + 1) \<or> ?F ! (i * 3 + 2) \<noteq> pos ! (i * 3 + 2)"
    unfolding y z using assms(3) by auto
  then have "?F \<noteq> pos" by auto
  then show ?thesis using x y z advect_zero by simp
qed

theorem swirl_not_scaled_by_delta_witness:
  "active example_field \<and> 0 < swirl example_field
    \<and> length [0.5, 0, 0 :: real] = count example_field * 3 \<and> (0::nat) < count example_field
    \<and> useFrame_Particles example_field True [0] 0 0 [0.5, 0, 0] = [0.5, 0, 0.004]
    \<and> useFrame_Particles example_field True [0] 0 0 [0.5, 0, 0] \<noteq> [0.5, 0, 0]"
proof -
  have h: "active example_field" "True" "0 < swirl example_field"
    "length [0.5, 0, 0 :: real] = count example_field * 3" "0 < count example_field"
    by (simp_all add: example_field_def)
  have b: "\<bar>[0.5, 0, 0 :: real] ! (0 * 3 + 0)\<bar> \<le> fst (box example_field) / 2"
    "\<bar>[0.5, 0, 0 :: real] ! (0 * 3 + 1)
        + sin ([0] ! 0 + 0 * (0.8 + swirl example_field * 1.2)) * swirl example_field * 0.02\<bar>
      \<le> fst (snd (box example_field)) / 2"
    "\<bar>[0.5, 0, 0 :: real] ! (0 * 3 + 2)
        + cos ([0] ! 0 + 0 * (0.8 + swirl example_field * 1.2)) * swirl example_field * 0.02\<bar>
      \<le> snd (snd (box example_field)) / 2"
    by (simp_all add: example_field_def)
  show ?thesis
    using h swirl_not_scaled_by_delta [OF h b] example_frame_zero by simp
qed

end
